theory Spec2Isabelle
  imports Complex_Main "HOL-Library.Sublist"
begin

section \<open>JavaScript numbers\<close>

text \<open>
  A JavaScript number is modelled as an exact real or one of the three special values
  that arithmetic on reals can produce in the engine: the two infinities and NaN.
  The operations on \<open>jsnum\<close> are exact; the rounding of a result to a double is
  \<open>toDouble\<close>, below. The sign of zero is not modelled; every zero is \<open>+0\<close>.
  The operations below are the ones \<open>similarityEngine.js\<close> applies to numbers:
  \<open>-\<close>, \<open>+\<close>, \<open>*\<close>, \<open>/\<close>, \<open><=\<close>, \<open>Math.abs\<close>, \<open>Math.max\<close>, \<open>Math.min\<close>.
\<close>

datatype jsnum = Fin real | PInf | NInf | NaN

fun jsub :: "jsnum \<Rightarrow> jsnum \<Rightarrow> jsnum" where
  "jsub NaN _ = NaN"
| "jsub _ NaN = NaN"
| "jsub (Fin x) (Fin y) = Fin (x - y)"
| "jsub (Fin x) PInf = NInf"
| "jsub (Fin x) NInf = PInf"
| "jsub PInf PInf = NaN"
| "jsub PInf _ = PInf"
| "jsub NInf NInf = NaN"
| "jsub NInf _ = NInf"

fun jadd :: "jsnum \<Rightarrow> jsnum \<Rightarrow> jsnum" where
  "jadd NaN _ = NaN"
| "jadd _ NaN = NaN"
| "jadd (Fin x) (Fin y) = Fin (x + y)"
| "jadd (Fin x) PInf = PInf"
| "jadd (Fin x) NInf = NInf"
| "jadd PInf NInf = NaN"
| "jadd PInf _ = PInf"
| "jadd NInf PInf = NaN"
| "jadd NInf _ = NInf"

fun jmul :: "jsnum \<Rightarrow> jsnum \<Rightarrow> jsnum" where
  "jmul NaN _ = NaN"
| "jmul _ NaN = NaN"
| "jmul (Fin x) (Fin y) = Fin (x * y)"
| "jmul (Fin x) PInf = (if x = 0 then NaN else if 0 < x then PInf else NInf)"
| "jmul (Fin x) NInf = (if x = 0 then NaN else if 0 < x then NInf else PInf)"
| "jmul PInf (Fin y) = (if y = 0 then NaN else if 0 < y then PInf else NInf)"
| "jmul NInf (Fin y) = (if y = 0 then NaN else if 0 < y then NInf else PInf)"
| "jmul PInf PInf = PInf"
| "jmul PInf NInf = NInf"
| "jmul NInf PInf = NInf"
| "jmul NInf NInf = PInf"

fun jdiv :: "jsnum \<Rightarrow> jsnum \<Rightarrow> jsnum" where
  "jdiv NaN _ = NaN"
| "jdiv _ NaN = NaN"
| "jdiv (Fin x) (Fin y) =
     (if y \<noteq> 0 then Fin (x / y)
      else if x = 0 then NaN else if 0 < x then PInf else NInf)"
| "jdiv (Fin x) _ = Fin 0"
| "jdiv PInf (Fin y) = (if 0 \<le> y then PInf else NInf)"
| "jdiv NInf (Fin y) = (if 0 \<le> y then NInf else PInf)"
| "jdiv _ _ = NaN"

fun jabs :: "jsnum \<Rightarrow> jsnum" where
  "jabs NaN = NaN"
| "jabs (Fin x) = Fin \<bar>x\<bar>"
| "jabs _ = PInf"

fun jmax :: "jsnum \<Rightarrow> jsnum \<Rightarrow> jsnum" where
  "jmax NaN _ = NaN"
| "jmax _ NaN = NaN"
| "jmax PInf _ = PInf"
| "jmax _ PInf = PInf"
| "jmax NInf b = b"
| "jmax a NInf = a"
| "jmax (Fin x) (Fin y) = Fin (max x y)"

fun jmin :: "jsnum \<Rightarrow> jsnum \<Rightarrow> jsnum" where
  "jmin NaN _ = NaN"
| "jmin _ NaN = NaN"
| "jmin NInf _ = NInf"
| "jmin _ NInf = NInf"
| "jmin PInf b = b"
| "jmin a PInf = a"
| "jmin (Fin x) (Fin y) = Fin (min x y)"

fun jle :: "jsnum \<Rightarrow> jsnum \<Rightarrow> bool" where
  "jle NaN _ = False"
| "jle _ NaN = False"
| "jle NInf _ = True"
| "jle _ PInf = True"
| "jle PInf _ = False"
| "jle _ NInf = False"
| "jle (Fin x) (Fin y) = (x \<le> y)"

text \<open>A comparator result is read by \<open>sort\<close> as "greater than zero"; NaN counts as zero.\<close>

fun positive :: "jsnum \<Rightarrow> bool" where
  "positive (Fin x) = (0 < x)"
| "positive PInf = True"
| "positive _ = False"

text \<open>
  A numeric field of a JSON record is a number or absent. Reading an absent field
  gives \<open>undefined\<close>, which arithmetic converts to NaN and \<open>&&\<close> treats as false;
  the number zero is false as well.
\<close>

fun toNumber :: "real option \<Rightarrow> jsnum" where
  "toNumber None = NaN"
| "toNumber (Some x) = Fin x"

fun truthy :: "real option \<Rightarrow> bool" where
  "truthy None = False"
| "truthy (Some x) = (x \<noteq> 0)"

section \<open>Relative difference\<close>

text \<open>
  \<^verbatim>\<open>function relDiff(a, b) { return Math.abs(a - b) / Math.max(a, b); }\<close>
\<close>

definition relDiff :: "jsnum \<Rightarrow> jsnum \<Rightarrow> jsnum" where
  "relDiff a b = jdiv (jabs (jsub a b)) (jmax a b)"

section \<open>Relative difference on doubles\<close>

text \<open>
  The engine's numbers are IEEE 754 doubles: 53 significant bits, the exponent of the
  last place at least \<open>-1074\<close>, and every arithmetic operation delivers the double
  nearest to its exact result, a tie going to the even significand, or an infinity
  from \<open>2 ^ 1024\<close> on. \<open>toDouble\<close> is that rounding of a real, \<open>ulpExponent\<close> the
  exponent of the last place at the magnitude of its argument, and a real is a double
  when rounding leaves it unchanged.
\<close>

definition roundHalfEven :: "real \<Rightarrow> int" where
  "roundHalfEven q =
     (let f = \<lfloor>q\<rfloor>; d = q - of_int f
      in if d < 1 / 2 then f else if 1 / 2 < d then f + 1 else if even f then f else f + 1)"







section \<open>Algorithm configuration\<close>

text \<open>
  The configuration is a JSON object with three groups, \<open>weights\<close>, \<open>cutoffs\<close> and
  \<open>priceBias\<close>; each group is an object from key names to scalar JSON values. Reading
  a key that is absent gives \<open>undefined\<close>.
\<close>

datatype jsval = JNull | JBool bool | JNum real

type_synonym group = "string \<rightharpoonup> jsval"

fun valNumber :: "jsval option \<Rightarrow> jsnum" where
  "valNumber None = NaN"
| "valNumber (Some JNull) = Fin 0"
| "valNumber (Some (JBool b)) = Fin (if b then 1 else 0)"
| "valNumber (Some (JNum x)) = Fin x"

fun valTruthy :: "jsval option \<Rightarrow> bool" where
  "valTruthy None = False"
| "valTruthy (Some JNull) = False"
| "valTruthy (Some (JBool b)) = b"
| "valTruthy (Some (JNum x)) = (x \<noteq> 0)"

record algo =
  weights :: group
  cutoffs :: group
  priceBias :: group

text \<open>The defaults that \<open>loadDefaultAlgo\<close> installs when the JSON file cannot be loaded.\<close>

definition fallbackAlgo :: algo where
  "fallbackAlgo =
     \<lparr>weights = [''area'' \<mapsto> JNum 0.4, ''market'' \<mapsto> JNum 0.2,
                 ''land'' \<mapsto> JNum 0.1, ''year'' \<mapsto> JNum 0.3],
      cutoffs = [''areaPct'' \<mapsto> JNum 0.1, ''marketPct'' \<mapsto> JNum 0.2,
                 ''landPct'' \<mapsto> JNum 0.3, ''yearDiff'' \<mapsto> JNum 10],
      priceBias = [''enabled'' \<mapsto> JBool True, ''weight'' \<mapsto> JNum 0.15,
                   ''fullBiasAt'' \<mapsto> JNum 50]\<rparr>"

text \<open>
  \<open>loadDefaultAlgo\<close>: the cached value if there is one, else the fetched JSON, else the
  fallback. \<open>fetched\<close> is \<open>None\<close> when the fetch or its decoding throws.
\<close>

definition loadDefaultAlgo :: "algo option \<Rightarrow> algo option \<Rightarrow> algo" where
  "loadDefaultAlgo defaultAlgo fetched =
     (case defaultAlgo of
        Some a \<Rightarrow> a
      | None \<Rightarrow> (case fetched of Some a \<Rightarrow> a | None \<Rightarrow> fallbackAlgo))"

text \<open>
  A custom algorithm object. A group is \<open>None\<close> when \<open>algo.weights\<close> (and so on) is
  absent or falsy, so that the \<open>if\<close> guarding its merge is skipped. \<open>options.customAlgo\<close>
  is such an object or a string; \<open>JSON.parse\<close> of a string throws, gives \<open>null\<close>, or
  gives a value whose groups are read the same way.
\<close>

record override =
  o_weights :: "group option"
  o_cutoffs :: "group option"
  o_priceBias :: "group option"

datatype customAlgo = AlgoString string | AlgoObject override

datatype parsed = ParsedNull | ParsedObject override

datatype warning = InvalidCustomAlgo

text \<open>\<^verbatim>\<open>{ ...weights, ...algo.weights }\<close> behind \<^verbatim>\<open>if (algo.weights)\<close>.\<close>

definition mergeGroup :: "group \<Rightarrow> group option \<Rightarrow> group" where
  "mergeGroup g og = (case og of None \<Rightarrow> g | Some g' \<Rightarrow> g ++ g')"

definition applyAlgo :: "algo \<Rightarrow> override \<Rightarrow> algo" where
  "applyAlgo base ov =
     \<lparr>weights = mergeGroup (weights base) (o_weights ov),
      cutoffs = mergeGroup (cutoffs base) (o_cutoffs ov),
      priceBias = mergeGroup (priceBias base) (o_priceBias ov)\<rparr>"

text \<open>
  Lines 36 to 53 of \<open>getSimilarProperties\<close>. \<open>parse\<close> stands for the engine's
  \<open>JSON.parse\<close>, \<open>None\<close> being a thrown SyntaxError. The empty string is falsy, so the
  whole block is skipped for it. Reading \<open>algo.weights\<close> of \<open>null\<close> throws a TypeError
  inside the \<open>try\<close>, before any group is assigned. The second component is what was
  passed to \<open>console.warn\<close>.
\<close>

definition resolveAlgo ::
  "(string \<Rightarrow> parsed option) \<Rightarrow> algo \<Rightarrow> customAlgo option \<Rightarrow> algo \<times> warning list" where
  "resolveAlgo parse base c =
     (case c of
        None \<Rightarrow> (base, [])
      | Some (AlgoObject ov) \<Rightarrow> (applyAlgo base ov, [])
      | Some (AlgoString s) \<Rightarrow>
          if s = [] then (base, [])
          else (case parse s of
                  None \<Rightarrow> (base, [InvalidCustomAlgo])
                | Some ParsedNull \<Rightarrow> (base, [InvalidCustomAlgo])
                | Some (ParsedObject ov) \<Rightarrow> (applyAlgo base ov, [])))"

section \<open>Records, filter, score, rank\<close>

text \<open>
  A record of the data provider: the selected columns, each of which may be absent.
  A scored candidate is the record extended by the three computed fields; the field
  the source calls \<open>priceBias\<close> in its output is \<open>priceBiasValue\<close> here, after the
  variable that holds it.
\<close>

record property =
  propid :: "string option"
  imprvmainarea :: "real option"
  prevvalmarket :: "real option"
  prevvalland :: "real option"
  imprvyearbuilt :: "real option"
  legalabssubcode :: "string option"

record scored = property +
  similarity :: jsnum
  baseSimilarity :: jsnum
  priceBiasValue :: jsnum

text \<open>Lines 70 to 72; \<open>n\<close> is \<open>candidates.length\<close>.\<close>

definition availabilityFactor :: "group \<Rightarrow> nat \<Rightarrow> jsnum" where
  "availabilityFactor pb n =
     (if valTruthy (pb ''enabled'')
      then jmin (Fin 1) (jdiv (Fin (real n)) (valNumber (pb ''fullBiasAt'')))
      else Fin 0)"

text \<open>The callback of \<open>filter\<close>, lines 76 to 82.\<close>

definition admits :: "group \<Rightarrow> property \<Rightarrow> property \<Rightarrow> bool" where
  "admits co t r \<longleftrightarrow>
     truthy (imprvmainarea r) \<and> truthy (prevvalmarket r) \<and>
     truthy (prevvalland r) \<and> truthy (imprvyearbuilt r) \<and>
     jle (relDiff (toNumber (imprvmainarea r)) (toNumber (imprvmainarea t)))
         (valNumber (co ''areaPct'')) \<and>
     jle (relDiff (toNumber (prevvalmarket r)) (toNumber (prevvalmarket t)))
         (valNumber (co ''marketPct'')) \<and>
     jle (relDiff (toNumber (prevvalland r)) (toNumber (prevvalland t)))
         (valNumber (co ''landPct'')) \<and>
     jle (jabs (jsub (toNumber (imprvyearbuilt r)) (toNumber (imprvyearbuilt t))))
         (valNumber (co ''yearDiff''))"

definition filterCandidates :: "group \<Rightarrow> property \<Rightarrow> property list \<Rightarrow> property list" where
  "filterCandidates co t candidates = filter (admits co t) candidates"

text \<open>The callback of \<open>map\<close>, lines 83 to 99; \<open>af\<close> is the availability factor.\<close>

definition score :: "group \<Rightarrow> group \<Rightarrow> jsnum \<Rightarrow> property \<Rightarrow> property \<Rightarrow> scored" where
  "score w pb af t r =
     (let base =
            jadd (jadd (jadd
              (jmul (valNumber (w ''area''))
                    (relDiff (toNumber (imprvmainarea r)) (toNumber (imprvmainarea t))))
              (jmul (valNumber (w ''market''))
                    (relDiff (toNumber (prevvalmarket r)) (toNumber (prevvalmarket t)))))
              (jmul (valNumber (w ''land''))
                    (relDiff (toNumber (prevvalland r)) (toNumber (prevvalland t)))))
              (jmul (valNumber (w ''year''))
                    (jdiv (jabs (jsub (toNumber (imprvyearbuilt r))
                                      (toNumber (imprvyearbuilt t))))
                          (Fin 100)));
          bias =
            (if valTruthy (pb ''enabled'')
             then jmax (Fin 0)
                    (jsub (jdiv (toNumber (prevvalmarket r)) (toNumber (prevvalmarket t)))
                          (Fin 1))
             else Fin 0);
          sim = jadd base (jmul (jmul af (valNumber (pb ''weight''))) bias)
      in \<lparr>propid = propid r, imprvmainarea = imprvmainarea r,
          prevvalmarket = prevvalmarket r, prevvalland = prevvalland r,
          imprvyearbuilt = imprvyearbuilt r, legalabssubcode = legalabssubcode r,
          similarity = sim, baseSimilarity = base, priceBiasValue = bias\<rparr>)"

text \<open>
  \<^verbatim>\<open>.sort((a, b) => a.similarity - b.similarity)\<close>. \<open>Array.prototype.sort\<close> is stable
  and moves \<open>b\<close> before \<open>a\<close> when the comparator is positive; it is modelled as the
  stable insertion sort.
\<close>

definition compareSimilarity :: "scored \<Rightarrow> scored \<Rightarrow> jsnum" where
  "compareSimilarity a b = jsub (similarity a) (similarity b)"

fun insertBy :: "('a \<Rightarrow> 'a \<Rightarrow> jsnum) \<Rightarrow> 'a \<Rightarrow> 'a list \<Rightarrow> 'a list" where
  "insertBy cmp x [] = [x]"
| "insertBy cmp x (y # ys) =
     (if positive (cmp x y) then y # insertBy cmp x ys else x # y # ys)"

definition sortBy :: "('a \<Rightarrow> 'a \<Rightarrow> jsnum) \<Rightarrow> 'a list \<Rightarrow> 'a list" where
  "sortBy cmp xs = foldr (insertBy cmp) xs []"

text \<open>
  \<^verbatim>\<open>.slice(0, e)\<close> for an integer \<open>e\<close>: a negative end counts from the end of the
  array, and the end is clamped to the length.
\<close>

definition slice0 :: "int \<Rightarrow> 'a list \<Rightarrow> 'a list" where
  "slice0 e xs =
     (let n = int (length xs);
          k = (if e < 0 then max (n + e) 0 else min e n)
      in take (nat k) xs)"

section \<open>The request\<close>

text \<open>
  \<open>options\<close>: \<open>opt_propid\<close> is \<open>options.propid\<close>; \<open>limit\<close> is an integer or absent.
  The two queries to the data provider are the functions \<open>fetchTarget\<close>, from the
  property id, and \<open>fetchCandidates\<close>, from the target's subdivision code and the
  property id.
\<close>

record options =
  opt_propid :: "string option"
  limit :: "int option"
  customAlgo :: "customAlgo option"

record comparison =
  target :: property
  res_legalabssubcode :: "string option"
  totalCandidates :: nat
  filteredCandidates :: nat
  comps :: "scored list"

datatype error = PropidRequired | TargetNotFound

text \<open>\<^verbatim>\<open>const LIMIT = options.limit || 10;\<close>\<close>

definition LIMIT :: "options \<Rightarrow> int" where
  "LIMIT opts = (case limit opts of None \<Rightarrow> 10 | Some n \<Rightarrow> if n = 0 then 10 else n)"

text \<open>Lines 75 to 101: filter, map, sort, slice.\<close>

definition scoredList :: "algo \<Rightarrow> int \<Rightarrow> property \<Rightarrow> property list \<Rightarrow> scored list" where
  "scoredList cfg e t candidates =
     slice0 e
       (sortBy compareSimilarity
          (map (score (weights cfg) (priceBias cfg)
                  (availabilityFactor (priceBias cfg) (length candidates)) t)
               (filterCandidates (cutoffs cfg) t candidates)))"

definition getSimilarProperties ::
  "(string \<Rightarrow> parsed option) \<Rightarrow> algo \<Rightarrow> (string \<Rightarrow> property list) \<Rightarrow>
   (string option \<Rightarrow> string \<Rightarrow> property list) \<Rightarrow> options option \<Rightarrow>
   warning list \<times> (error + comparison)" where
  "getSimilarProperties parse defaultAlgo fetchTarget fetchCandidates options =
     (case options of
        None \<Rightarrow> ([], Inl PropidRequired)
      | Some opts \<Rightarrow>
         (case opt_propid opts of
            None \<Rightarrow> ([], Inl PropidRequired)
          | Some pid \<Rightarrow>
             if pid = [] then ([], Inl PropidRequired)
             else
               let (cfg, warnings) = resolveAlgo parse defaultAlgo (customAlgo opts)
               in (case fetchTarget pid of
                     [] \<Rightarrow> (warnings, Inl TargetNotFound)
                   | t # _ \<Rightarrow>
                       let legal = legalabssubcode t;
                           candidates = fetchCandidates legal pid;
                           scored = scoredList cfg (LIMIT opts) t candidates
                       in (warnings,
                           Inr \<lparr>target = t, res_legalabssubcode = legal,
                                totalCandidates = length candidates,
                                filteredCandidates = length scored,
                                comps = scored\<rparr>))))"

section \<open>The filter as the specification words it\<close>

text \<open>
  The admission rule in the words of the specification, over the reals: the
  candidate's value is present and not zero, the target's value is present, the cutoff
  is a number, and the relative difference \<open>|a - b| / max a b\<close> (a number when
  \<open>max a b\<close> is not zero) is at most the cutoff; for the year the absolute difference
  is at most the cutoff.
\<close>

definition withinPct :: "real option \<Rightarrow> real option \<Rightarrow> jsval option \<Rightarrow> bool" where
  "withinPct v tv c =
     (case v of None \<Rightarrow> False | Some a \<Rightarrow>
        (case tv of None \<Rightarrow> False | Some b \<Rightarrow>
           (case valNumber c of
              Fin k \<Rightarrow> a \<noteq> 0 \<and> max a b \<noteq> 0 \<and> \<bar>a - b\<bar> / max a b \<le> k
            | _ \<Rightarrow> False)))"

definition withinYears :: "real option \<Rightarrow> real option \<Rightarrow> jsval option \<Rightarrow> bool" where
  "withinYears v tv c =
     (case v of None \<Rightarrow> False | Some a \<Rightarrow>
        (case tv of None \<Rightarrow> False | Some b \<Rightarrow>
           (case valNumber c of
              Fin k \<Rightarrow> a \<noteq> 0 \<and> \<bar>a - b\<bar> \<le> k
            | _ \<Rightarrow> False)))"

definition admitted :: "group \<Rightarrow> property \<Rightarrow> property \<Rightarrow> bool" where
  "admitted co t r \<longleftrightarrow>
     withinPct (imprvmainarea r) (imprvmainarea t) (co ''areaPct'') \<and>
     withinPct (prevvalmarket r) (prevvalmarket t) (co ''marketPct'') \<and>
     withinPct (prevvalland r) (prevvalland t) (co ''landPct'') \<and>
     withinYears (imprvyearbuilt r) (imprvyearbuilt t) (co ''yearDiff'')"

section \<open>Sample data\<close>

text \<open>
  Concrete inputs for the closed examples: the target and the near candidate of the
  specification's scenario, a candidate whose area is out of tolerance, a candidate
  equal to the target, the fallback configuration with the price bias switched off,
  and a market of 25 candidates of which one passes the filter.
\<close>

definition sampleOverride :: override where
  "sampleOverride =
     \<lparr>o_weights = Some [''area'' \<mapsto> JNum 0.9], o_cutoffs = None, o_priceBias = None\<rparr>"

definition noOverride :: override where
  "noOverride = \<lparr>o_weights = None, o_cutoffs = None, o_priceBias = None\<rparr>"

text \<open>
  \<open>JSON.parse\<close> belongs to the engine, and the model takes it as a parameter. In the
  closed examples the following table stands for it; it agrees with \<open>JSON.parse\<close> on
  the texts the examples use: \<open>{}\<close>, \<open>null\<close>, and the texts that are not JSON.
\<close>

definition parseSample :: "string \<Rightarrow> parsed option" where
  "parseSample s =
     (if s = ''{}'' then Some (ParsedObject noOverride)
      else if s = ''null'' then Some ParsedNull
      else None)"

definition sampleTarget :: property where
  "sampleTarget =
     \<lparr>propid = None, imprvmainarea = Some 2000, prevvalmarket = Some 300000,
      prevvalland = Some 50000, imprvyearbuilt = Some 2005, legalabssubcode = Some ''A1''\<rparr>"

definition sampleNear :: property where
  "sampleNear =
     \<lparr>propid = Some ''c1'', imprvmainarea = Some 2050, prevvalmarket = Some 310000,
      prevvalland = Some 51000, imprvyearbuilt = Some 2006, legalabssubcode = None\<rparr>"

definition sampleFar :: property where
  "sampleFar =
     \<lparr>propid = Some ''c2'', imprvmainarea = Some 3000, prevvalmarket = Some 300000,
      prevvalland = Some 50000, imprvyearbuilt = Some 2005, legalabssubcode = None\<rparr>"

definition sampleSame :: property where
  "sampleSame =
     \<lparr>propid = Some ''c3'', imprvmainarea = Some 2000, prevvalmarket = Some 300000,
      prevvalland = Some 50000, imprvyearbuilt = Some 2005, legalabssubcode = None\<rparr>"

definition sampleCandidates :: "property list" where
  "sampleCandidates = [sampleNear, sampleFar, sampleSame]"

definition biasOffAlgo :: algo where
  "biasOffAlgo =
     fallbackAlgo\<lparr>priceBias := [''enabled'' \<mapsto> JBool False, ''weight'' \<mapsto> JNum 0.15,
                                ''fullBiasAt'' \<mapsto> JNum 50]\<rparr>"

definition sampleMarket :: "property list" where
  "sampleMarket = replicate 24 sampleFar @ [sampleNear]"

definition sampleOptions :: options where
  "sampleOptions = \<lparr>opt_propid = Some ''p0'', limit = None, customAlgo = None\<rparr>"

definition sampleFetchTarget :: "string \<Rightarrow> property list" where
  "sampleFetchTarget pid = (if pid = ''p0'' then [sampleTarget] else [])"

definition sampleFetchCandidates :: "string option \<Rightarrow> string \<Rightarrow> property list" where
  "sampleFetchCandidates legal pid =
     (if legal = Some ''A1'' \<and> pid = ''p0'' then sampleCandidates else [])"

section \<open>Relative difference: properties\<close>

lemma relDiff_Fin:
  "relDiff (Fin a) (Fin b) =
     (if max a b \<noteq> 0 then Fin (\<bar>a - b\<bar> / max a b)
      else if a = b then NaN else PInf)"
  by (auto simp: relDiff_def)

section \<open>Facts about the stages\<close>

lemma valNumber_cases: "valNumber c = NaN \<or> (\<exists>k. valNumber c = Fin k)"
  by (cases c rule: valNumber.cases) auto

lemma withinPct_iff:
  "withinPct v tv c \<longleftrightarrow> truthy v \<and> jle (relDiff (toNumber v) (toNumber tv)) (valNumber c)"
proof (cases v)
  case None then show ?thesis by (simp add: withinPct_def)
next
  case (Some a)
  show ?thesis
  proof (cases tv)
    case None
    with Some show ?thesis by (simp add: withinPct_def relDiff_def)
  next
    case (Some b)
    with \<open>v = Some a\<close> valNumber_cases [of c] show ?thesis
      by (auto simp: withinPct_def relDiff_Fin)
  qed
qed

lemma withinYears_iff:
  "withinYears v tv c \<longleftrightarrow>
     truthy v \<and> jle (jabs (jsub (toNumber v) (toNumber tv))) (valNumber c)"
proof (cases v)
  case None then show ?thesis by (simp add: withinYears_def)
next
  case (Some a)
  show ?thesis
  proof (cases tv)
    case None
    with Some show ?thesis by (simp add: withinYears_def)
  next
    case (Some b)
    with \<open>v = Some a\<close> valNumber_cases [of c] show ?thesis
      by (auto simp: withinYears_def)
  qed
qed

lemma admits_iff_admitted: "admits co t r \<longleftrightarrow> admitted co t r"
  unfolding admits_def admitted_def withinPct_iff withinYears_iff by blast

lemma mergeGroup_None: "mergeGroup g None = g"
  by (simp add: mergeGroup_def)

lemma mergeGroup_Some: "mergeGroup g (Some g') k = (case g' k of None \<Rightarrow> g k | Some v \<Rightarrow> Some v)"
  by (simp add: mergeGroup_def map_add_def)

lemma resolveAlgo_None: "resolveAlgo parse base None = (base, [])"
  by (simp add: resolveAlgo_def)

lemma resolveAlgo_reject:
  "parse s = None \<Longrightarrow>
   resolveAlgo parse base (Some (AlgoString s)) = (base, if s = [] then [] else [InvalidCustomAlgo])"
  by (simp add: resolveAlgo_def)

lemma getSimilarProperties_fst:
  "fst (getSimilarProperties parse base ft fc (Some opts)) =
     (case opt_propid opts of
        None \<Rightarrow> []
      | Some pid \<Rightarrow> if pid = [] then [] else snd (resolveAlgo parse base (customAlgo opts)))"
  by (simp add: getSimilarProperties_def Let_def split: option.splits list.splits prod.splits)

lemma getSimilarProperties_snd:
  "snd (getSimilarProperties parse base ft fc (Some opts)) =
     (case opt_propid opts of
        None \<Rightarrow> Inl PropidRequired
      | Some pid \<Rightarrow>
          if pid = [] then Inl PropidRequired
          else (case ft pid of
                  [] \<Rightarrow> Inl TargetNotFound
                | t # _ \<Rightarrow>
                    Inr \<lparr>target = t, res_legalabssubcode = legalabssubcode t,
                         totalCandidates = length (fc (legalabssubcode t) pid),
                         filteredCandidates =
                           length (scoredList (fst (resolveAlgo parse base (customAlgo opts)))
                                     (LIMIT opts) t (fc (legalabssubcode t) pid)),
                         comps = scoredList (fst (resolveAlgo parse base (customAlgo opts)))
                                   (LIMIT opts) t (fc (legalabssubcode t) pid)\<rparr>))"
  by (simp add: getSimilarProperties_def Let_def split: option.splits list.splits prod.splits)

lemma LIMIT_customAlgo: "LIMIT (opts\<lparr>customAlgo := c\<rparr>) = LIMIT opts"
  by (simp add: LIMIT_def)

section \<open>The candidate filter\<close>

text \<open>
  C3. The candidate filter returns a subsequence of its input in the input's order,
  and it admits a candidate exactly when the four values are present and not zero,
  the relative differences of area, market value and land value against the target
  are at most \<open>cutoffs.areaPct\<close>, \<open>cutoffs.marketPct\<close> and \<open>cutoffs.landPct\<close>, and the
  absolute difference of the years built is at most \<open>cutoffs.yearDiff\<close>.
\<close>

theorem filterCandidates_spec:
  "subseq (filterCandidates co t candidates) candidates
   \<and> filterCandidates co t candidates = filter (admitted co t) candidates
   \<and> (r \<in> set (filterCandidates co t candidates) \<longleftrightarrow> r \<in> set candidates \<and> admitted co t r)"
  by (simp add: filterCandidates_def admits_iff_admitted [abs_def])

section \<open>Configuration resolution\<close>

text \<open>
  C7. For every base configuration and every override object, the resolved
  configuration takes, in each of the groups \<open>weights\<close>, \<open>cutoffs\<close> and \<open>priceBias\<close> that
  the override has, the override's value at the keys of the override's group and the
  base value at every other key; a group the override lacks is the base group.
\<close>

theorem resolveAlgo_object:
  assumes "resolveAlgo parse base (Some (AlgoObject ov)) = (cfg, ws)"
  shows "ws = []
     \<and> (o_weights ov = None \<longrightarrow> weights cfg = weights base)
     \<and> (\<forall>g k. o_weights ov = Some g \<longrightarrow>
           (k \<in> dom g \<longrightarrow> weights cfg k = g k) \<and> (k \<notin> dom g \<longrightarrow> weights cfg k = weights base k))
     \<and> (o_cutoffs ov = None \<longrightarrow> cutoffs cfg = cutoffs base)
     \<and> (\<forall>g k. o_cutoffs ov = Some g \<longrightarrow>
           (k \<in> dom g \<longrightarrow> cutoffs cfg k = g k) \<and> (k \<notin> dom g \<longrightarrow> cutoffs cfg k = cutoffs base k))
     \<and> (o_priceBias ov = None \<longrightarrow> priceBias cfg = priceBias base)
     \<and> (\<forall>g k. o_priceBias ov = Some g \<longrightarrow>
           (k \<in> dom g \<longrightarrow> priceBias cfg k = g k) \<and>
           (k \<notin> dom g \<longrightarrow> priceBias cfg k = priceBias base k))"
proof -
  from assms have cfg: "cfg = applyAlgo base ov" and ws: "ws = []"
    by (simp_all add: resolveAlgo_def)
  have w: "weights cfg = mergeGroup (weights base) (o_weights ov)"
    and c: "cutoffs cfg = mergeGroup (cutoffs base) (o_cutoffs ov)"
    and p: "priceBias cfg = mergeGroup (priceBias base) (o_priceBias ov)"
    by (simp_all add: cfg applyAlgo_def)
  show ?thesis
    unfolding w c p using ws
    by (auto simp: mergeGroup_None mergeGroup_Some split: option.splits)
qed

theorem resolveAlgo_object_witness:
  "resolveAlgo parseSample fallbackAlgo (Some (AlgoObject sampleOverride))
     = (applyAlgo fallbackAlgo sampleOverride, [])
   \<and> weights (applyAlgo fallbackAlgo sampleOverride) ''area'' = Some (JNum 0.9)
   \<and> weights (applyAlgo fallbackAlgo sampleOverride) ''market'' = Some (JNum 0.2)
   \<and> weights (applyAlgo fallbackAlgo sampleOverride) ''land'' = Some (JNum 0.1)
   \<and> weights (applyAlgo fallbackAlgo sampleOverride) ''year'' = Some (JNum 0.3)
   \<and> cutoffs (applyAlgo fallbackAlgo sampleOverride) = cutoffs fallbackAlgo
   \<and> priceBias (applyAlgo fallbackAlgo sampleOverride) = priceBias fallbackAlgo"
proof -
  have r: "resolveAlgo parseSample fallbackAlgo (Some (AlgoObject sampleOverride))
             = (applyAlgo fallbackAlgo sampleOverride, [])"
    by (simp add: resolveAlgo_def)
  note t = resolveAlgo_object [OF r]
  have ow: "o_weights sampleOverride = Some [''area'' \<mapsto> JNum 0.9]"
    and oc: "o_cutoffs sampleOverride = None" and op: "o_priceBias sampleOverride = None"
    by (simp_all add: sampleOverride_def)
  have w: "\<And>g k. o_weights sampleOverride = Some g \<Longrightarrow>
        (k \<in> dom g \<longrightarrow> weights (applyAlgo fallbackAlgo sampleOverride) k = g k)
      \<and> (k \<notin> dom g \<longrightarrow> weights (applyAlgo fallbackAlgo sampleOverride) k = weights fallbackAlgo k)"
    using t by simp
  note k = w [OF ow]
  have a: "weights (applyAlgo fallbackAlgo sampleOverride) ''area'' = Some (JNum 0.9)"
    using k [of "''area''"] by simp
  have m: "weights (applyAlgo fallbackAlgo sampleOverride) ''market'' = Some (JNum 0.2)"
    using k [of "''market''"] by (simp add: fallbackAlgo_def)
  have l: "weights (applyAlgo fallbackAlgo sampleOverride) ''land'' = Some (JNum 0.1)"
    using k [of "''land''"] by (simp add: fallbackAlgo_def)
  have y: "weights (applyAlgo fallbackAlgo sampleOverride) ''year'' = Some (JNum 0.3)"
    using k [of "''year''"] by (simp add: fallbackAlgo_def)
  from t oc have c: "cutoffs (applyAlgo fallbackAlgo sampleOverride) = cutoffs fallbackAlgo"
    by simp
  from t op have p: "priceBias (applyAlgo fallbackAlgo sampleOverride) = priceBias fallbackAlgo"
    by simp
  show ?thesis
    by (intro conjI r a m l y c p)
qed

text \<open>
  C8, as stated, fails at the empty string: it does not parse as JSON, and no warning
  is logged for it, because the empty string is falsy and the override block is
  skipped.
\<close>

theorem empty_override_no_warning:
  "parseSample [] = None
   \<and> snd (resolveAlgo parseSample fallbackAlgo (Some (AlgoString []))) = []"
  by (simp add: parseSample_def resolveAlgo_def)

text \<open>
  C8, amended. For every override string that does not parse as JSON, configuration
  resolution returns the base configuration unchanged, the request's result is the
  one of the request without an override, so no exception reaches the caller, and
  nothing but the warning is logged; the warning is logged when the string is not
  empty, and nothing is logged for the empty string.
\<close>

theorem malformed_override_keeps_base:
  assumes "parse s = None"
  shows "resolveAlgo parse base (Some (AlgoString s))
           = (base, if s = [] then [] else [InvalidCustomAlgo])
     \<and> snd (getSimilarProperties parse base ft fc (Some (opts\<lparr>customAlgo := Some (AlgoString s)\<rparr>)))
         = snd (getSimilarProperties parse base ft fc (Some (opts\<lparr>customAlgo := None\<rparr>)))
     \<and> set (fst (getSimilarProperties parse base ft fc
                   (Some (opts\<lparr>customAlgo := Some (AlgoString s)\<rparr>)))) \<subseteq> {InvalidCustomAlgo}"
proof -
  note r = resolveAlgo_reject [of parse s base, OF assms]
  have a: "snd (getSimilarProperties parse base ft fc (Some (opts\<lparr>customAlgo := Some (AlgoString s)\<rparr>)))
         = snd (getSimilarProperties parse base ft fc (Some (opts\<lparr>customAlgo := None\<rparr>)))"
    by (simp add: getSimilarProperties_snd r resolveAlgo_None LIMIT_customAlgo
          split: option.splits list.splits)
  have b: "set (fst (getSimilarProperties parse base ft fc
                   (Some (opts\<lparr>customAlgo := Some (AlgoString s)\<rparr>)))) \<subseteq> {InvalidCustomAlgo}"
    by (auto simp: getSimilarProperties_fst r split: option.splits if_splits)
  from r a b show ?thesis by blast
qed

theorem malformed_override_keeps_base_witness:
  "parseSample ''{bad json'' = None
   \<and> resolveAlgo parseSample fallbackAlgo (Some (AlgoString ''{bad json''))
       = (fallbackAlgo, [InvalidCustomAlgo])"
proof -
  have h: "parseSample ''{bad json'' = None" by (simp add: parseSample_def)
  from malformed_override_keeps_base [of parseSample "''{bad json''" fallbackAlgo, OF h] h show ?thesis by simp
qed

section \<open>Sorting, slicing and scoring: auxiliary facts\<close>

lemma positive_jsub_neq: "positive (jsub a b) \<Longrightarrow> a \<noteq> b"
  by (cases a; cases b) auto

lemma not_positive_jle: "a \<noteq> NaN \<Longrightarrow> b \<noteq> NaN \<Longrightarrow> \<not> positive (jsub a b) \<Longrightarrow> jle a b"
  by (cases a; cases b) auto

lemma positive_jle: "positive (jsub a b) \<Longrightarrow> jle b a"
  by (cases a; cases b) auto

lemma jle_trans: "jle a b \<Longrightarrow> jle b c \<Longrightarrow> jle a c"
  by (cases a; cases b; cases c) auto

lemma set_insertBy: "set (insertBy cmp x ys) = insert x (set ys)"
  by (induction ys) auto

lemma length_insertBy: "length (insertBy cmp x ys) = Suc (length ys)"
  by (induction ys) auto

lemma set_sortBy: "set (sortBy cmp xs) = set xs"
  by (induction xs) (simp_all add: sortBy_def set_insertBy)

lemma length_sortBy: "length (sortBy cmp xs) = length xs"
  by (induction xs) (simp_all add: sortBy_def length_insertBy)

lemma filter_insertBy:
  "filter (\<lambda>c. similarity c = k) (insertBy compareSimilarity x ys) =
     (if similarity x = k then x # filter (\<lambda>c. similarity c = k) ys
      else filter (\<lambda>c. similarity c = k) ys)"
  by (induction ys) (auto simp: compareSimilarity_def dest: positive_jsub_neq)

lemma sortBy_stable:
  "filter (\<lambda>c. similarity c = k) (sortBy compareSimilarity xs) = filter (\<lambda>c. similarity c = k) xs"
  by (induction xs) (simp_all add: sortBy_def filter_insertBy)

lemma sorted_insertBy:
  assumes "similarity x \<noteq> NaN" and "\<forall>y\<in>set ys. similarity y \<noteq> NaN"
    and "sorted_wrt (\<lambda>a b. jle (similarity a) (similarity b)) ys"
  shows "sorted_wrt (\<lambda>a b. jle (similarity a) (similarity b)) (insertBy compareSimilarity x ys)"
  using assms
proof (induction ys)
  case Nil
  then show ?case by simp
next
  case (Cons y ys)
  show ?case
  proof (cases "positive (compareSimilarity x y)")
    case True
    then have yx: "jle (similarity y) (similarity x)"
      by (simp add: compareSimilarity_def positive_jle)
    from Cons have "sorted_wrt (\<lambda>a b. jle (similarity a) (similarity b)) (insertBy compareSimilarity x ys)"
      by simp
    moreover from Cons.prems have "\<forall>z\<in>set ys. jle (similarity y) (similarity z)" by simp
    ultimately show ?thesis using True yx by (simp add: set_insertBy)
  next
    case False
    with Cons.prems have xy: "jle (similarity x) (similarity y)"
      by (simp add: compareSimilarity_def not_positive_jle)
    from Cons.prems have "\<forall>z\<in>set ys. jle (similarity y) (similarity z)" by simp
    with xy have "\<forall>z\<in>set ys. jle (similarity x) (similarity z)"
      by (blast intro: jle_trans)
    with False xy Cons.prems show ?thesis by simp
  qed
qed

lemma sorted_sortBy:
  "\<forall>y\<in>set xs. similarity y \<noteq> NaN \<Longrightarrow>
   sorted_wrt (\<lambda>a b. jle (similarity a) (similarity b)) (sortBy compareSimilarity xs)"
proof (induction xs)
  case Nil
  then show ?case by (simp add: sortBy_def)
next
  case (Cons x xs)
  then have "sorted_wrt (\<lambda>a b. jle (similarity a) (similarity b)) (sortBy compareSimilarity xs)"
    by simp
  with Cons.prems show ?case
    using sorted_insertBy [of x "sortBy compareSimilarity xs"]
    by (simp add: sortBy_def set_sortBy [unfolded sortBy_def])
qed

lemma slice0_nonneg: "0 \<le> e \<Longrightarrow> slice0 e xs = take (nat e) xs"
  by (simp add: slice0_def Let_def min_def)

lemma slice0_take: "\<exists>k. slice0 e xs = take k xs"
  by (simp add: slice0_def Let_def) blast

lemma length_slice0_pos: "0 < e \<Longrightarrow> length (slice0 e xs) = min (nat e) (length xs)"
  by (simp add: slice0_nonneg)

lemma set_slice0: "set (slice0 e xs) \<subseteq> set xs"
  using slice0_take [of e xs] by (auto dest: in_set_takeD)

lemma sorted_wrt_slice0: "sorted_wrt P xs \<Longrightarrow> sorted_wrt P (slice0 e xs)"
  using slice0_take [of e xs] by (auto simp: sorted_wrt_take)

lemma prefix_filter_slice0: "prefix (filter P (slice0 e xs)) (filter P xs)"
proof -
  obtain k where "slice0 e xs = take k xs" using slice0_take by blast
  then show ?thesis by (simp add: take_is_prefix filter_mono_prefix)
qed

lemma withinPctD:
  "withinPct v tv c \<Longrightarrow>
   \<exists>a b k. v = Some a \<and> tv = Some b \<and> valNumber c = Fin k \<and> a \<noteq> 0 \<and> max a b \<noteq> 0
           \<and> \<bar>a - b\<bar> / max a b \<le> k"
  by (auto simp: withinPct_def split: option.splits jsnum.splits)

lemma withinYearsD:
  "withinYears v tv c \<Longrightarrow>
   \<exists>a b k. v = Some a \<and> tv = Some b \<and> valNumber c = Fin k \<and> a \<noteq> 0 \<and> \<bar>a - b\<bar> \<le> k"
  by (auto simp: withinYears_def split: option.splits jsnum.splits)

lemma admitted_fields:
  assumes "admitted co t r"
  obtains a m l y ta tm tl' ty where
    "imprvmainarea r = Some a" "prevvalmarket r = Some m"
    "prevvalland r = Some l" "imprvyearbuilt r = Some y"
    "imprvmainarea t = Some ta" "prevvalmarket t = Some tm"
    "prevvalland t = Some tl'" "imprvyearbuilt t = Some ty"
    "max a ta \<noteq> 0" "max m tm \<noteq> 0" "max l tl' \<noteq> 0" "m \<noteq> 0"
proof -
  from assms have
    1: "withinPct (imprvmainarea r) (imprvmainarea t) (co ''areaPct'')" and
    2: "withinPct (prevvalmarket r) (prevvalmarket t) (co ''marketPct'')" and
    3: "withinPct (prevvalland r) (prevvalland t) (co ''landPct'')" and
    4: "withinYears (imprvyearbuilt r) (imprvyearbuilt t) (co ''yearDiff'')"
    by (simp_all add: admitted_def)
  from withinPctD [OF 1] withinPctD [OF 2] withinPctD [OF 3] withinYearsD [OF 4] that
  show thesis by blast
qed

lemma score_fields:
  "propid (score w pb af t r) = propid r"
  "imprvmainarea (score w pb af t r) = imprvmainarea r"
  "prevvalmarket (score w pb af t r) = prevvalmarket r"
  "prevvalland (score w pb af t r) = prevvalland r"
  "imprvyearbuilt (score w pb af t r) = imprvyearbuilt r"
  "legalabssubcode (score w pb af t r) = legalabssubcode r"
  by (simp_all add: score_def Let_def)

lemma score_similarity:
  "similarity (score w pb af t r) =
     jadd (baseSimilarity (score w pb af t r))
          (jmul (jmul af (valNumber (pb ''weight''))) (priceBiasValue (score w pb af t r)))"
  by (simp add: score_def Let_def)

lemma score_base:
  assumes "imprvmainarea r = Some a" "prevvalmarket r = Some m"
    "prevvalland r = Some l" "imprvyearbuilt r = Some y"
    "imprvmainarea t = Some ta" "prevvalmarket t = Some tm"
    "prevvalland t = Some tl'" "imprvyearbuilt t = Some ty"
    "max a ta \<noteq> 0" "max m tm \<noteq> 0" "max l tl' \<noteq> 0"
    "valNumber (w ''area'') = Fin wa" "valNumber (w ''market'') = Fin wm"
    "valNumber (w ''land'') = Fin wl" "valNumber (w ''year'') = Fin wy"
  shows "baseSimilarity (score w pb af t r) =
           Fin (wa * (\<bar>a - ta\<bar> / max a ta) + wm * (\<bar>m - tm\<bar> / max m tm)
                + wl * (\<bar>l - tl'\<bar> / max l tl') + wy * (\<bar>y - ty\<bar> / 100))"
  using assms by (simp add: score_def Let_def relDiff_Fin)

lemma score_bias:
  assumes "prevvalmarket r = Some m" "prevvalmarket t = Some tm" "tm \<noteq> 0"
  shows "priceBiasValue (score w pb af t r) =
           Fin (if valTruthy (pb ''enabled'') then max 0 (m / tm - 1) else 0)"
  using assms by (simp add: score_def Let_def)

lemma score_bias_disabled:
  "\<not> valTruthy (pb ''enabled'') \<Longrightarrow> priceBiasValue (score w pb af t r) = Fin 0"
  by (simp add: score_def Let_def)

lemma scoredList_mem:
  assumes "c \<in> set (scoredList cfg e t candidates)"
  obtains r where "r \<in> set candidates" "admitted (cutoffs cfg) t r"
    "c = score (weights cfg) (priceBias cfg)
           (availabilityFactor (priceBias cfg) (length candidates)) t r"
proof -
  let ?S = "sortBy compareSimilarity
        (map (score (weights cfg) (priceBias cfg)
               (availabilityFactor (priceBias cfg) (length candidates)) t)
             (filterCandidates (cutoffs cfg) t candidates))"
  from assms have "c \<in> set (slice0 e ?S)" by (simp add: scoredList_def)
  then have "c \<in> set ?S" by (rule subsetD [OF set_slice0])
  then show thesis
    using that by (auto simp: set_sortBy filterCandidates_def admits_iff_admitted)
qed

section \<open>The score\<close>

text \<open>
  C4. For every scored candidate, \<open>baseSimilarity\<close> is \<open>weights.area\<close> times the
  relative difference of the areas, plus \<open>weights.market\<close> times the relative
  difference of the market values, plus \<open>weights.land\<close> times the relative difference
  of the land values, plus \<open>weights.year\<close> times the absolute difference of the years
  built divided by 100.
\<close>

theorem baseSimilarity_formula:
  assumes "weights cfg ''area'' = Some (JNum wa)" and "weights cfg ''market'' = Some (JNum wm)"
    and "weights cfg ''land'' = Some (JNum wl)" and "weights cfg ''year'' = Some (JNum wy)"
    and "c \<in> set (scoredList cfg e t candidates)"
  shows "\<exists>a m l y ta tm tl' ty.
      imprvmainarea c = Some a \<and> prevvalmarket c = Some m \<and>
      prevvalland c = Some l \<and> imprvyearbuilt c = Some y \<and>
      imprvmainarea t = Some ta \<and> prevvalmarket t = Some tm \<and>
      prevvalland t = Some tl' \<and> imprvyearbuilt t = Some ty \<and>
      relDiff (Fin a) (Fin ta) = Fin (\<bar>a - ta\<bar> / max a ta) \<and>
      relDiff (Fin m) (Fin tm) = Fin (\<bar>m - tm\<bar> / max m tm) \<and>
      relDiff (Fin l) (Fin tl') = Fin (\<bar>l - tl'\<bar> / max l tl') \<and>
      baseSimilarity c =
        Fin (wa * (\<bar>a - ta\<bar> / max a ta) + wm * (\<bar>m - tm\<bar> / max m tm)
             + wl * (\<bar>l - tl'\<bar> / max l tl') + wy * (\<bar>y - ty\<bar> / 100))"
proof -
  from assms(5) obtain r where
    adm: "admitted (cutoffs cfg) t r" and
    c: "c = score (weights cfg) (priceBias cfg)
              (availabilityFactor (priceBias cfg) (length candidates)) t r"
    by (rule scoredList_mem)
  from adm obtain a m l y ta tm tl' ty where f:
    "imprvmainarea r = Some a" "prevvalmarket r = Some m"
    "prevvalland r = Some l" "imprvyearbuilt r = Some y"
    "imprvmainarea t = Some ta" "prevvalmarket t = Some tm"
    "prevvalland t = Some tl'" "imprvyearbuilt t = Some ty"
    "max a ta \<noteq> 0" "max m tm \<noteq> 0" "max l tl' \<noteq> 0"
    by (rule admitted_fields)
  have w: "valNumber (weights cfg ''area'') = Fin wa" "valNumber (weights cfg ''market'') = Fin wm"
    "valNumber (weights cfg ''land'') = Fin wl" "valNumber (weights cfg ''year'') = Fin wy"
    using assms(1-4) by simp_all
  have b: "baseSimilarity c =
        Fin (wa * (\<bar>a - ta\<bar> / max a ta) + wm * (\<bar>m - tm\<bar> / max m tm)
             + wl * (\<bar>l - tl'\<bar> / max l tl') + wy * (\<bar>y - ty\<bar> / 100))"
    unfolding c by (rule score_base [OF f w])
  have rd: "relDiff (Fin a) (Fin ta) = Fin (\<bar>a - ta\<bar> / max a ta)"
    "relDiff (Fin m) (Fin tm) = Fin (\<bar>m - tm\<bar> / max m tm)"
    "relDiff (Fin l) (Fin tl') = Fin (\<bar>l - tl'\<bar> / max l tl')"
    using f(9-11) by (simp_all add: relDiff_Fin)
  from f(1-8) rd b show ?thesis
    unfolding c score_fields by blast
qed

lemma slice0_all: "int (length xs) \<le> e \<Longrightarrow> slice0 e xs = xs"
  by (simp add: slice0_def Let_def min_def)

lemma scoredList_memI:
  assumes "r \<in> set candidates" and "admitted (cutoffs cfg) t r"
    and "int (length candidates) \<le> e"
  shows "score (weights cfg) (priceBias cfg)
           (availabilityFactor (priceBias cfg) (length candidates)) t r
         \<in> set (scoredList cfg e t candidates)"
proof -
  let ?U = "map (score (weights cfg) (priceBias cfg)
               (availabilityFactor (priceBias cfg) (length candidates)) t)
             (filterCandidates (cutoffs cfg) t candidates)"
  have "length (filterCandidates (cutoffs cfg) t candidates) \<le> length candidates"
    by (simp add: filterCandidates_def)
  with assms(3) have "int (length (sortBy compareSimilarity ?U)) \<le> e"
    by (simp add: length_sortBy)
  then have "scoredList cfg e t candidates = sortBy compareSimilarity ?U"
    unfolding scoredList_def by (rule slice0_all)
  with assms(1,2) show ?thesis
    by (simp add: set_sortBy filterCandidates_def admits_iff_admitted)
qed

lemma sampleNear_admitted: "admitted (cutoffs fallbackAlgo) sampleTarget sampleNear"
  by (simp add: admitted_def withinPct_def withinYears_def fallbackAlgo_def
        sampleTarget_def sampleNear_def)

lemma sampleNear_admitted_biasOff: "admitted (cutoffs biasOffAlgo) sampleTarget sampleNear"
  using sampleNear_admitted by (simp add: biasOffAlgo_def)

theorem baseSimilarity_formula_witness:
  "weights fallbackAlgo ''area'' = Some (JNum 0.4)
   \<and> weights fallbackAlgo ''market'' = Some (JNum 0.2)
   \<and> weights fallbackAlgo ''land'' = Some (JNum 0.1)
   \<and> weights fallbackAlgo ''year'' = Some (JNum 0.3)
   \<and> score (weights fallbackAlgo) (priceBias fallbackAlgo)
        (availabilityFactor (priceBias fallbackAlgo) (length sampleCandidates))
        sampleTarget sampleNear
       \<in> set (scoredList fallbackAlgo 10 sampleTarget sampleCandidates)
   \<and> baseSimilarity
        (score (weights fallbackAlgo) (priceBias fallbackAlgo)
           (availabilityFactor (priceBias fallbackAlgo) (length sampleCandidates))
           sampleTarget sampleNear)
       = Fin (0.4 * (50 / 2050) + 0.2 * (10000 / 310000) + 0.1 * (1000 / 51000)
              + 0.3 * (1 / 100))"
proof -
  let ?c = "score (weights fallbackAlgo) (priceBias fallbackAlgo)
        (availabilityFactor (priceBias fallbackAlgo) (length sampleCandidates))
        sampleTarget sampleNear"
  have w: "weights fallbackAlgo ''area'' = Some (JNum 0.4)"
    "weights fallbackAlgo ''market'' = Some (JNum 0.2)"
    "weights fallbackAlgo ''land'' = Some (JNum 0.1)"
    "weights fallbackAlgo ''year'' = Some (JNum 0.3)"
    by (simp_all add: fallbackAlgo_def)
  have mem: "?c \<in> set (scoredList fallbackAlgo 10 sampleTarget sampleCandidates)"
    by (rule scoredList_memI) (simp_all add: sampleCandidates_def sampleNear_admitted)
  from baseSimilarity_formula [OF w mem] obtain a m l y ta tm tl' ty where
    f: "imprvmainarea ?c = Some a" "prevvalmarket ?c = Some m"
       "prevvalland ?c = Some l" "imprvyearbuilt ?c = Some y"
       "imprvmainarea sampleTarget = Some ta" "prevvalmarket sampleTarget = Some tm"
       "prevvalland sampleTarget = Some tl'" "imprvyearbuilt sampleTarget = Some ty"
    and b: "baseSimilarity ?c =
        Fin (0.4 * (\<bar>a - ta\<bar> / max a ta) + 0.2 * (\<bar>m - tm\<bar> / max m tm)
             + 0.1 * (\<bar>l - tl'\<bar> / max l tl') + 0.3 * (\<bar>y - ty\<bar> / 100))"
    by blast
  from f have v: "a = 2050" "m = 310000" "l = 51000" "y = 2006"
    "ta = 2000" "tm = 300000" "tl' = 50000" "ty = 2005"
    by (simp_all add: score_fields sampleNear_def sampleTarget_def)
  have "baseSimilarity ?c =
      Fin (0.4 * (50 / 2050) + 0.2 * (10000 / 310000) + 0.1 * (1000 / 51000)
           + 0.3 * (1 / 100))"
    unfolding b v by simp
  with w mem show ?thesis by (intro conjI)
qed

text \<open>
  C6, amended. For every scored candidate of a target with a positive market value:
  when \<open>priceBias.enabled\<close> holds, the price-bias contribution is
  \<open>max 0 (candidate.marketValue / target.marketValue - 1)\<close>, zero for a candidate priced
  at or below the target and positive for a pricier one; when it does not hold, the
  contribution is zero. In both cases, for a non-negative \<open>priceBias.weight\<close> and a
  non-negative availability factor, \<open>similarity\<close> is \<open>baseSimilarity\<close> plus a
  non-negative number, so the bias never lowers the score.
\<close>

theorem priceBias_contribution:
  assumes "prevvalmarket t = Some tm" and "0 < tm"
    and "priceBias cfg ''weight'' = Some (JNum pw)" and "0 \<le> pw"
    and "availabilityFactor (priceBias cfg) (length candidates) = Fin af" and "0 \<le> af"
    and "c \<in> set (scoredList cfg e t candidates)"
  shows "\<exists>m. prevvalmarket c = Some m
     \<and> priceBiasValue c =
         Fin (if valTruthy (priceBias cfg ''enabled'') then max 0 (m / tm - 1) else 0)
     \<and> (valTruthy (priceBias cfg ''enabled'') \<and> m \<le> tm \<longrightarrow> priceBiasValue c = Fin 0)
     \<and> (valTruthy (priceBias cfg ''enabled'') \<and> tm < m \<longrightarrow>
          (\<exists>p. 0 < p \<and> priceBiasValue c = Fin p))
     \<and> (\<exists>d. 0 \<le> d \<and> similarity c = jadd (baseSimilarity c) (Fin d))
     \<and> (\<forall>b. baseSimilarity c = Fin b \<longrightarrow> (\<exists>s. similarity c = Fin s \<and> b \<le> s))"
proof -
  from assms(7) obtain r where
    adm: "admitted (cutoffs cfg) t r" and
    c: "c = score (weights cfg) (priceBias cfg)
              (availabilityFactor (priceBias cfg) (length candidates)) t r"
    by (rule scoredList_mem)
  from adm obtain m tm' where "prevvalmarket r = Some m" "prevvalmarket t = Some tm'"
    by (rule admitted_fields)
  with assms(1) have m: "prevvalmarket r = Some m" by simp
  define p where "p = (if valTruthy (priceBias cfg ''enabled'') then max 0 (m / tm - 1) else 0)"
  have tm0: "tm \<noteq> 0" using assms(2) by simp
  have pv: "priceBiasValue c = Fin p"
    unfolding c p_def by (rule score_bias [OF m assms(1) tm0])
  have p0: "0 \<le> p" by (simp add: p_def)
  have le: "valTruthy (priceBias cfg ''enabled'') \<and> m \<le> tm \<longrightarrow> p = 0"
    using assms(2) by (simp add: p_def max_def)
  have gt: "valTruthy (priceBias cfg ''enabled'') \<and> tm < m \<longrightarrow> 0 < p"
    using assms(2) by (simp add: p_def max_def)
  have sim: "similarity c = jadd (baseSimilarity c) (Fin (af * pw * p))"
    unfolding c score_similarity
    using pv assms(3,5) by (simp add: c)
  have d0: "0 \<le> af * pw * p" using assms(4,6) p0 by simp
  have fin: "\<forall>b. baseSimilarity c = Fin b \<longrightarrow> (\<exists>s. similarity c = Fin s \<and> b \<le> s)"
    using sim d0 by simp
  have mc: "prevvalmarket c = Some m" by (simp add: c score_fields m)
  have pv': "priceBiasValue c =
      Fin (if valTruthy (priceBias cfg ''enabled'') then max 0 (m / tm - 1) else 0)"
    using pv by (simp add: p_def)
  have le': "valTruthy (priceBias cfg ''enabled'') \<and> m \<le> tm \<longrightarrow> priceBiasValue c = Fin 0"
    using pv le by simp
  have gt': "valTruthy (priceBias cfg ''enabled'') \<and> tm < m \<longrightarrow>
      (\<exists>p. 0 < p \<and> priceBiasValue c = Fin p)"
    using pv gt by blast
  have ex: "\<exists>d. 0 \<le> d \<and> similarity c = jadd (baseSimilarity c) (Fin d)"
    using sim d0 by blast
  show ?thesis
    by (intro exI [of _ m] conjI mc pv' le' gt' ex fin)
qed

lemma biasOff_weights: "weights biasOffAlgo = weights fallbackAlgo"
  and biasOff_cutoffs: "cutoffs biasOffAlgo = cutoffs fallbackAlgo"
  by (simp_all add: biasOffAlgo_def)

lemma fallback_af_sample:
  "availabilityFactor (priceBias fallbackAlgo) (length sampleCandidates) = Fin (3 / 50)"
  by (simp add: availabilityFactor_def fallbackAlgo_def sampleCandidates_def)

theorem priceBias_contribution_witness:
  "prevvalmarket sampleTarget = Some 300000 \<and> (0::real) < 300000
   \<and> priceBias fallbackAlgo ''weight'' = Some (JNum 0.15) \<and> (0::real) \<le> 0.15
   \<and> availabilityFactor (priceBias fallbackAlgo) (length sampleCandidates) = Fin (3 / 50)
   \<and> (0::real) \<le> 3 / 50
   \<and> score (weights fallbackAlgo) (priceBias fallbackAlgo)
        (availabilityFactor (priceBias fallbackAlgo) (length sampleCandidates))
        sampleTarget sampleNear
       \<in> set (scoredList fallbackAlgo 10 sampleTarget sampleCandidates)
   \<and> priceBiasValue
        (score (weights fallbackAlgo) (priceBias fallbackAlgo)
           (availabilityFactor (priceBias fallbackAlgo) (length sampleCandidates))
           sampleTarget sampleNear)
       = Fin (1 / 30)"
proof -
  let ?c = "score (weights fallbackAlgo) (priceBias fallbackAlgo)
        (availabilityFactor (priceBias fallbackAlgo) (length sampleCandidates))
        sampleTarget sampleNear"
  have h1: "prevvalmarket sampleTarget = Some 300000" by (simp add: sampleTarget_def)
  have h2: "(0::real) < 300000" by simp
  have h3: "priceBias fallbackAlgo ''weight'' = Some (JNum 0.15)" by (simp add: fallbackAlgo_def)
  have h4: "(0::real) \<le> 0.15" by simp
  note h5 = fallback_af_sample
  have h6: "(0::real) \<le> 3 / 50" by simp
  have mem: "?c \<in> set (scoredList fallbackAlgo 10 sampleTarget sampleCandidates)"
    by (rule scoredList_memI) (simp_all add: sampleCandidates_def sampleNear_admitted)
  from priceBias_contribution [OF h1 h2 h3 h4 h5 h6 mem] obtain m where
    m: "prevvalmarket ?c = Some m" and
    v: "priceBiasValue ?c =
          Fin (if valTruthy (priceBias fallbackAlgo ''enabled'') then max 0 (m / 300000 - 1) else 0)"
    by blast
  from m have "m = 310000" by (simp add: score_fields sampleNear_def)
  with v have "priceBiasValue ?c = Fin (1 / 30)" by (simp add: fallbackAlgo_def)
  with h1 h2 h3 h4 h5 h6 mem show ?thesis by (intro conjI)
qed

text \<open>
  C6, as stated, fails when the price bias is disabled: the contribution of a pricier
  candidate is then zero, not \<open>max 0 (ratio - 1)\<close>.
\<close>

theorem bias_disabled_contribution_zero:
  "score (weights biasOffAlgo) (priceBias biasOffAlgo)
        (availabilityFactor (priceBias biasOffAlgo) (length sampleCandidates))
        sampleTarget sampleNear
       \<in> set (scoredList biasOffAlgo 10 sampleTarget sampleCandidates)
   \<and> prevvalmarket sampleNear = Some 310000
   \<and> prevvalmarket sampleTarget = Some 300000
   \<and> priceBiasValue
        (score (weights biasOffAlgo) (priceBias biasOffAlgo)
           (availabilityFactor (priceBias biasOffAlgo) (length sampleCandidates))
           sampleTarget sampleNear) = Fin 0
   \<and> Fin 0 \<noteq> jmax (Fin 0) (jsub (jdiv (Fin 310000) (Fin 300000)) (Fin 1))"
proof -
  have mem: "score (weights biasOffAlgo) (priceBias biasOffAlgo)
        (availabilityFactor (priceBias biasOffAlgo) (length sampleCandidates))
        sampleTarget sampleNear
       \<in> set (scoredList biasOffAlgo 10 sampleTarget sampleCandidates)"
    by (rule scoredList_memI) (simp_all add: sampleCandidates_def sampleNear_admitted_biasOff)
  have off: "\<not> valTruthy (priceBias biasOffAlgo ''enabled'')"
    by (simp add: biasOffAlgo_def)
  have z: "priceBiasValue
        (score (weights biasOffAlgo) (priceBias biasOffAlgo)
           (availabilityFactor (priceBias biasOffAlgo) (length sampleCandidates))
           sampleTarget sampleNear) = Fin 0"
    using off by (rule score_bias_disabled)
  have a: "prevvalmarket sampleNear = Some 310000" by (simp add: sampleNear_def)
  have b: "prevvalmarket sampleTarget = Some 300000" by (simp add: sampleTarget_def)
  have d: "Fin 0 \<noteq> jmax (Fin 0) (jsub (jdiv (Fin 310000) (Fin 300000)) (Fin 1))" by simp
  from mem a b z d show ?thesis by (intro conjI)
qed

section \<open>The availability factor\<close>

text \<open>
  C2, amended. For a non-zero \<open>priceBias.fullBiasAt\<close>, the availability factor is
  \<open>min 1 (n / fullBiasAt)\<close> when \<open>priceBias.enabled\<close> holds and zero when it does
  not, where \<open>n\<close> is the number of candidates before filtering; every scored
  candidate's similarity uses the factor of the unfiltered count.
\<close>

theorem availabilityFactor_value:
  assumes "priceBias cfg ''fullBiasAt'' = Some (JNum f)" and "f \<noteq> 0"
  shows "availabilityFactor (priceBias cfg) n =
           (if valTruthy (priceBias cfg ''enabled'') then Fin (min 1 (real n / f)) else Fin 0)
     \<and> (\<forall>c\<in>set (scoredList cfg e t candidates).
           similarity c =
             jadd (baseSimilarity c)
               (jmul (jmul (availabilityFactor (priceBias cfg) (length candidates))
                           (valNumber (priceBias cfg ''weight'')))
                     (priceBiasValue c)))"
proof -
  have a: "availabilityFactor (priceBias cfg) n =
           (if valTruthy (priceBias cfg ''enabled'') then Fin (min 1 (real n / f)) else Fin 0)"
    using assms by (simp add: availabilityFactor_def)
  have b: "similarity c =
             jadd (baseSimilarity c)
               (jmul (jmul (availabilityFactor (priceBias cfg) (length candidates))
                           (valNumber (priceBias cfg ''weight'')))
                     (priceBiasValue c))"
    if "c \<in> set (scoredList cfg e t candidates)" for c
  proof -
    from that obtain r where
      "c = score (weights cfg) (priceBias cfg)
              (availabilityFactor (priceBias cfg) (length candidates)) t r"
      by (rule scoredList_mem)
    then show ?thesis by (simp add: score_similarity)
  qed
  from a b show ?thesis by blast
qed

theorem availabilityFactor_value_witness:
  "priceBias fallbackAlgo ''fullBiasAt'' = Some (JNum 50) \<and> (50::real) \<noteq> 0
   \<and> length sampleMarket = 25
   \<and> length (filterCandidates (cutoffs fallbackAlgo) sampleTarget sampleMarket) = 1
   \<and> availabilityFactor (priceBias fallbackAlgo) (length sampleMarket) = Fin (1 / 2)"
proof -
  have h1: "priceBias fallbackAlgo ''fullBiasAt'' = Some (JNum 50)" by (simp add: fallbackAlgo_def)
  have h2: "(50::real) \<noteq> 0" by simp
  have n: "length sampleMarket = 25" by (simp add: sampleMarket_def)
  have far: "\<not> admitted (cutoffs fallbackAlgo) sampleTarget sampleFar"
    by (simp add: admitted_def withinPct_def fallbackAlgo_def sampleTarget_def sampleFar_def)
  have k: "length (filterCandidates (cutoffs fallbackAlgo) sampleTarget sampleMarket) = 1"
    using far sampleNear_admitted
    by (simp add: filterCandidates_def admits_iff_admitted [abs_def] sampleMarket_def)
  from availabilityFactor_value [OF h1 h2, of "length sampleMarket"]
  have "availabilityFactor (priceBias fallbackAlgo) (length sampleMarket) =
          (if valTruthy (priceBias fallbackAlgo ''enabled'')
           then Fin (min 1 (real (length sampleMarket) / 50)) else Fin 0)"
    by (rule conjunct1)
  then have v: "availabilityFactor (priceBias fallbackAlgo) (length sampleMarket) = Fin (1 / 2)"
    by (simp add: n fallbackAlgo_def)
  from h1 h2 n k v show ?thesis by (intro conjI)
qed

text \<open>
  C2, as stated, fails when the price bias is disabled: with \<open>fullBiasAt = 50\<close> and
  25 candidates the factor is zero, not one half.
\<close>

theorem availabilityFactor_disabled_zero:
  "priceBias biasOffAlgo ''fullBiasAt'' = Some (JNum 50)
   \<and> availabilityFactor (priceBias biasOffAlgo) 25 = Fin 0
   \<and> Fin 0 \<noteq> jmin (Fin 1) (jdiv (Fin 25) (valNumber (priceBias biasOffAlgo ''fullBiasAt'')))"
  by (simp add: availabilityFactor_def biasOffAlgo_def)

section \<open>Ranking\<close>

lemma valNumber_dom: "k \<in> dom g \<Longrightarrow> \<exists>x. valNumber (g k) = Fin x"
proof -
  assume "k \<in> dom g"
  then obtain v where "g k = Some v" by blast
  then show ?thesis by (cases v) simp_all
qed

lemma availabilityFactor_finite:
  assumes "''fullBiasAt'' \<in> dom pb" and "0 < n"
  shows "\<exists>a. availabilityFactor pb n = Fin a"
proof -
  from valNumber_dom [OF assms(1)] obtain f where "valNumber (pb ''fullBiasAt'') = Fin f"
    by blast
  with assms(2) show ?thesis by (simp add: availabilityFactor_def)
qed

lemma score_finite:
  assumes w: "{''area'', ''market'', ''land'', ''year''} \<subseteq> dom (weights cfg)"
    and pb: "{''weight'', ''fullBiasAt''} \<subseteq> dom (priceBias cfg)"
    and tm: "prevvalmarket t \<noteq> Some 0"
    and r: "r \<in> set candidates" and adm: "admitted (cutoffs cfg) t r"
  shows "\<exists>s. similarity (score (weights cfg) (priceBias cfg)
                (availabilityFactor (priceBias cfg) (length candidates)) t r) = Fin s"
proof -
  let ?af = "availabilityFactor (priceBias cfg) (length candidates)"
  from adm obtain a m l y ta tm' tl' ty where f:
    "imprvmainarea r = Some a" "prevvalmarket r = Some m"
    "prevvalland r = Some l" "imprvyearbuilt r = Some y"
    "imprvmainarea t = Some ta" "prevvalmarket t = Some tm'"
    "prevvalland t = Some tl'" "imprvyearbuilt t = Some ty"
    "max a ta \<noteq> 0" "max m tm' \<noteq> 0" "max l tl' \<noteq> 0"
    by (rule admitted_fields)
  from w obtain wa wm wl wy where wv:
    "valNumber (weights cfg ''area'') = Fin wa" "valNumber (weights cfg ''market'') = Fin wm"
    "valNumber (weights cfg ''land'') = Fin wl" "valNumber (weights cfg ''year'') = Fin wy"
    using valNumber_dom [of "''area''" "weights cfg"] valNumber_dom [of "''market''" "weights cfg"]
      valNumber_dom [of "''land''" "weights cfg"] valNumber_dom [of "''year''" "weights cfg"]
    by auto
  from pb obtain pw where pw: "valNumber (priceBias cfg ''weight'') = Fin pw"
    using valNumber_dom [of "''weight''" "priceBias cfg"] by auto
  from r have "0 < length candidates" by (cases candidates) auto
  with pb obtain af where af: "?af = Fin af"
    using availabilityFactor_finite [of "priceBias cfg" "length candidates"] by auto
  from tm f(6) have tm0: "tm' \<noteq> 0" by simp
  note b = score_base [OF f wv, of "priceBias cfg" ?af]
  note p = score_bias [OF f(2) f(6) tm0, of "weights cfg" "priceBias cfg" ?af]
  show ?thesis
    using b p unfolding af by (simp add: score_similarity pw)
qed

lemma finite_sorted:
  assumes "\<forall>c\<in>set xs. \<exists>s. similarity c = Fin s"
    and "sorted_wrt (\<lambda>a b. jle (similarity a) (similarity b)) xs"
  shows "\<exists>ks. map similarity xs = map Fin ks \<and> sorted ks"
  using assms
proof (induction xs)
  case Nil
  then show ?case by simp
next
  case (Cons x xs)
  then obtain ks where ks: "map similarity xs = map Fin ks" "sorted ks" by auto
  from Cons.prems obtain s where s: "similarity x = Fin s" by auto
  have "s \<le> k" if "k \<in> set ks" for k
  proof -
    from that have "Fin k \<in> set (map similarity xs)" by (simp add: ks)
    then obtain y where "y \<in> set xs" "similarity y = Fin k" by auto
    with Cons.prems(2) s show ?thesis by auto
  qed
  with ks s have "map similarity (x # xs) = map Fin (s # ks) \<and> sorted (s # ks)" by simp
  then show ?case by blast
qed

lemma LIMIT_pos: "limit opts = Some n \<Longrightarrow> 0 < n \<Longrightarrow> LIMIT opts = n"
  by (simp add: LIMIT_def)

lemma LIMIT_None: "limit opts = None \<Longrightarrow> LIMIT opts = 10"
  by (simp add: LIMIT_def)

lemma length_scoredList_pos:
  "0 < e \<Longrightarrow> length (scoredList cfg e t candidates) =
     min (nat e) (length (filterCandidates (cutoffs cfg) t candidates))"
  by (simp add: scoredList_def length_slice0_pos length_sortBy)

text \<open>
  C5. When the configuration has its weight and price-bias keys and the target's
  market value is not zero, the ranked output has finite scores that do not decrease
  along the list; candidates with equal scores keep the order they had in the
  candidate list; for a positive limit \<open>n\<close> the length is the minimum of \<open>n\<close> and the
  number of candidates that passed the filter, and without a limit the limit is 10.
\<close>

theorem ranked_output:
  assumes "{''area'', ''market'', ''land'', ''year''} \<subseteq> dom (weights cfg)"
    and "{''weight'', ''fullBiasAt''} \<subseteq> dom (priceBias cfg)"
    and "prevvalmarket t \<noteq> Some 0"
  shows "(\<exists>ks. map similarity (scoredList cfg (LIMIT opts) t candidates) = map Fin ks \<and> sorted ks)
     \<and> (\<forall>k. prefix (filter (\<lambda>c. similarity c = k) (scoredList cfg (LIMIT opts) t candidates))
              (filter (\<lambda>c. similarity c = k)
                 (map (score (weights cfg) (priceBias cfg)
                         (availabilityFactor (priceBias cfg) (length candidates)) t)
                      (filterCandidates (cutoffs cfg) t candidates))))
     \<and> (\<forall>n. limit opts = Some n \<and> 0 < n \<longrightarrow>
           length (scoredList cfg (LIMIT opts) t candidates)
             = min (nat n) (length (filterCandidates (cutoffs cfg) t candidates)))
     \<and> (limit opts = None \<longrightarrow>
           LIMIT opts = 10 \<and>
           length (scoredList cfg (LIMIT opts) t candidates)
             = min 10 (length (filterCandidates (cutoffs cfg) t candidates)))"
proof -
  let ?U = "map (score (weights cfg) (priceBias cfg)
                   (availabilityFactor (priceBias cfg) (length candidates)) t)
                (filterCandidates (cutoffs cfg) t candidates)"
  let ?S = "sortBy compareSimilarity ?U"
  have out: "scoredList cfg (LIMIT opts) t candidates = slice0 (LIMIT opts) ?S"
    by (simp add: scoredList_def)
  have finU: "\<exists>s. similarity c = Fin s" if "c \<in> set ?U" for c
  proof -
    from that obtain r where "r \<in> set candidates" "admitted (cutoffs cfg) t r"
      "c = score (weights cfg) (priceBias cfg)
             (availabilityFactor (priceBias cfg) (length candidates)) t r"
      by (auto simp: filterCandidates_def admits_iff_admitted)
    with score_finite [OF assms] show ?thesis by blast
  qed
  then have "\<forall>c\<in>set ?U. similarity c \<noteq> NaN" by fastforce
  then have "sorted_wrt (\<lambda>a b. jle (similarity a) (similarity b)) ?S"
    by (rule sorted_sortBy)
  then have srt: "sorted_wrt (\<lambda>a b. jle (similarity a) (similarity b)) (slice0 (LIMIT opts) ?S)"
    by (rule sorted_wrt_slice0)
  have "\<forall>c\<in>set (slice0 (LIMIT opts) ?S). \<exists>s. similarity c = Fin s"
    using finU set_slice0 [of "LIMIT opts" ?S] by (auto simp: set_sortBy)
  from finite_sorted [OF this srt]
  have 1: "\<exists>ks. map similarity (scoredList cfg (LIMIT opts) t candidates) = map Fin ks \<and> sorted ks"
    by (simp add: out)
  have 2: "prefix (filter (\<lambda>c. similarity c = k) (scoredList cfg (LIMIT opts) t candidates))
              (filter (\<lambda>c. similarity c = k) ?U)" for k
    using prefix_filter_slice0 [of "\<lambda>c. similarity c = k" "LIMIT opts" ?S]
    by (simp add: out sortBy_stable)
  have 3: "length (scoredList cfg (LIMIT opts) t candidates)
             = min (nat n) (length (filterCandidates (cutoffs cfg) t candidates))"
    if "limit opts = Some n \<and> 0 < n" for n
    using that by (simp add: LIMIT_pos length_scoredList_pos)
  have 4: "LIMIT opts = 10 \<and>
           length (scoredList cfg (LIMIT opts) t candidates)
             = min 10 (length (filterCandidates (cutoffs cfg) t candidates))"
    if "limit opts = None"
    using that by (simp add: LIMIT_None length_scoredList_pos)
  from 1 2 3 4 show ?thesis by blast
qed

lemma sampleFar_rejected: "\<not> admitted (cutoffs fallbackAlgo) sampleTarget sampleFar"
  by (simp add: admitted_def withinPct_def fallbackAlgo_def sampleTarget_def sampleFar_def)

lemma sampleSame_admitted: "admitted (cutoffs fallbackAlgo) sampleTarget sampleSame"
  by (simp add: admitted_def withinPct_def withinYears_def fallbackAlgo_def
        sampleTarget_def sampleSame_def)

lemma sample_filter:
  "filterCandidates (cutoffs fallbackAlgo) sampleTarget sampleCandidates = [sampleNear, sampleSame]"
  by (simp add: filterCandidates_def admits_iff_admitted [abs_def] sampleCandidates_def
        sampleNear_admitted sampleFar_rejected sampleSame_admitted)

theorem ranked_output_witness:
  "{''area'', ''market'', ''land'', ''year''} \<subseteq> dom (weights fallbackAlgo)
   \<and> {''weight'', ''fullBiasAt''} \<subseteq> dom (priceBias fallbackAlgo)
   \<and> prevvalmarket sampleTarget \<noteq> Some 0
   \<and> limit sampleOptions = None
   \<and> length (scoredList fallbackAlgo (LIMIT sampleOptions) sampleTarget sampleCandidates) = 2
   \<and> limit (sampleOptions\<lparr>limit := Some 1\<rparr>) = Some 1 \<and> (0::int) < 1
   \<and> length (scoredList fallbackAlgo (LIMIT (sampleOptions\<lparr>limit := Some 1\<rparr>))
                sampleTarget sampleCandidates) = 1
   \<and> (\<exists>ks. map similarity
               (scoredList fallbackAlgo (LIMIT sampleOptions) sampleTarget sampleCandidates)
             = map Fin ks \<and> sorted ks)"
proof -
  have h1: "{''area'', ''market'', ''land'', ''year''} \<subseteq> dom (weights fallbackAlgo)"
    by (simp add: fallbackAlgo_def)
  have h2: "{''weight'', ''fullBiasAt''} \<subseteq> dom (priceBias fallbackAlgo)"
    by (simp add: fallbackAlgo_def)
  have h3: "prevvalmarket sampleTarget \<noteq> Some 0" by (simp add: sampleTarget_def)
  have l0: "limit sampleOptions = None" by (simp add: sampleOptions_def)
  have l1: "limit (sampleOptions\<lparr>limit := Some 1\<rparr>) = Some 1 \<and> (0::int) < 1" by simp
  note a = ranked_output [OF h1 h2 h3, of sampleOptions sampleCandidates]
  note b = ranked_output [OF h1 h2 h3, of "sampleOptions\<lparr>limit := Some 1\<rparr>" sampleCandidates]
  from a have srt: "\<exists>ks. map similarity
               (scoredList fallbackAlgo (LIMIT sampleOptions) sampleTarget sampleCandidates)
             = map Fin ks \<and> sorted ks"
    by (rule conjunct1)
  note a' = a [THEN conjunct2, THEN conjunct2, THEN conjunct2, THEN mp, OF l0, THEN conjunct2]
  have n0: "length (scoredList fallbackAlgo (LIMIT sampleOptions) sampleTarget sampleCandidates) = 2"
    unfolding a' by (simp add: sample_filter)
  note b' = b [THEN conjunct2, THEN conjunct2, THEN conjunct1, rule_format, OF l1]
  have n1: "length (scoredList fallbackAlgo (LIMIT (sampleOptions\<lparr>limit := Some 1\<rparr>))
                sampleTarget sampleCandidates) = 1"
    unfolding b' by (simp add: sample_filter)
  from h1 h2 h3 l0 n0 l1 n1 srt show ?thesis by (intro conjI) simp_all
qed











section \<open>The reported counts\<close>

text \<open>
  C1. \<open>filteredCandidates\<close> is the length of the list after \<open>slice\<close>: with three
  candidates of which two pass the filter and a limit of 1, the request reports
  \<open>totalCandidates = 3\<close> and \<open>filteredCandidates = 1\<close>.
\<close>

theorem filteredCandidates_capped_by_limit:
  "length (filterCandidates (cutoffs fallbackAlgo) sampleTarget sampleCandidates) = 2
   \<and> (case snd (getSimilarProperties parseSample fallbackAlgo sampleFetchTarget
                  sampleFetchCandidates (Some (sampleOptions\<lparr>limit := Some 1\<rparr>))) of
        Inl err \<Rightarrow> False
      | Inr res \<Rightarrow> totalCandidates res = 3 \<and> filteredCandidates res = 1
                    \<and> length (comps res) = 1)"
proof -
  have a: "length (filterCandidates (cutoffs fallbackAlgo) sampleTarget sampleCandidates) = 2"
    by (simp add: sample_filter)
  have l: "LIMIT (sampleOptions\<lparr>limit := Some 1\<rparr>) = 1" by (simp add: LIMIT_def)
  have n: "length (scoredList fallbackAlgo 1 sampleTarget sampleCandidates) = 1"
    by (simp add: length_scoredList_pos a)
  have t: "sampleFetchTarget ''p0'' = [sampleTarget]" by (simp add: sampleFetchTarget_def)
  have c: "sampleFetchCandidates (legalabssubcode sampleTarget) ''p0'' = sampleCandidates"
    by (simp add: sampleFetchCandidates_def sampleTarget_def)
  have k: "length sampleCandidates = 3" by (simp add: sampleCandidates_def)
  have o1: "opt_propid (sampleOptions\<lparr>limit := Some 1\<rparr>) = Some ''p0''"
    and o2: "customAlgo (sampleOptions\<lparr>limit := Some 1\<rparr>) = None"
    by (simp_all add: sampleOptions_def)
  have b: "case snd (getSimilarProperties parseSample fallbackAlgo sampleFetchTarget
                  sampleFetchCandidates (Some (sampleOptions\<lparr>limit := Some 1\<rparr>))) of
        Inl err \<Rightarrow> False
      | Inr res \<Rightarrow> totalCandidates res = 3 \<and> filteredCandidates res = 1
                    \<and> length (comps res) = 1"
    by (simp add: getSimilarProperties_snd o1 o2 resolveAlgo_None t c l n k)
  from a b show ?thesis by (intro conjI)
qed

section \<open>Relative difference on doubles: properties\<close>





lemma rhe_error: "\<bar>of_int (roundHalfEven q) - q\<bar> \<le> 1 / 2"
  unfolding roundHalfEven_def Let_def
  by (auto simp: abs_if) linarith+

lemma rhe_zero: "0 < q \<Longrightarrow> roundHalfEven q = 0 \<Longrightarrow> q \<le> 1 / 2"
  using rhe_error [of q] by simp









































end
